theory Spec2Isabelle
  imports Complex_Main
begin

section \<open>Link budget, trajectory sampling and pass segmentation\<close>

text \<open>
  A shallow embedding of \<^verbatim>\<open>ast_spacemobile/core/config.py\<close>,
  \<^verbatim>\<open>ast_spacemobile/core/calculations.py\<close>, \<^verbatim>\<open>ast_spacemobile/analysis/passes.py\<close>
  and of the per-pass statistics of \<^verbatim>\<open>ast_spacemobile/reports/generator.py\<close>.

  Modelling conventions.
  \<^item> A finite binary64 float is the \<^typ>\<open>real\<close> it denotes; there is no NaN and no
    infinity. The arithmetic is a parameter (\<open>float_arith\<close> below): every floating-point
    operation of the source is the exact operation followed by the rounding \<open>rnd\<close>, and
    statements are proved for every rounding, so for that of binary64 too.
  \<^item> A dictionary with a fixed set of string keys is a record whose fields are the keys;
    a value that may be \<^verbatim>\<open>None\<close> is an \<^typ>\<open>'a option\<close>.
  \<^item> A \<^verbatim>\<open>datetime\<close> is an \<^typ>\<open>int\<close>: the number of microseconds (its resolution) since
    \<^verbatim>\<open>datetime.min\<close>, from 0 to \<open>datetime_max\<close>. Arithmetic that leaves the range of
    \<^verbatim>\<open>datetime\<close> or of \<^verbatim>\<open>timedelta\<close> raises \<^verbatim>\<open>OverflowError\<close>, as in Python. The two
    instants handed to the sampler are both naive or both aware.
  \<^item> The Skyfield propagator is outside the repository; the sampler takes what it returns
    as function parameters.
\<close>

subsection \<open>Configuration (\<^verbatim>\<open>core/config.py\<close>)\<close>

record signal_params =
  frequency_ghz :: real
  satellite_eirp_dbw :: real
  receiver_gain_dbi :: real
  system_losses_db :: real
  noise_floor_dbm :: real

definition SIGNAL_PARAMS :: signal_params where
  "SIGNAL_PARAMS =
     \<lparr>frequency_ghz = 2.0,
      satellite_eirp_dbw = 55,
      receiver_gain_dbi = 15,
      system_losses_db = 3,
      noise_floor_dbm = - 110\<rparr>"

record link_quality_thresholds =
  excellent :: real
  good :: real
  fair :: real
  poor :: real

definition LINK_QUALITY_THRESHOLDS :: link_quality_thresholds where
  "LINK_QUALITY_THRESHOLDS = \<lparr>excellent = 20, good = 15, fair = 10, poor = 5\<rparr>"

subsection \<open>Numeric primitives\<close>

text \<open>
  Binary64 arithmetic. IEEE 754 addition, subtraction and multiplication return the exact
  result rounded to the nearest binary64 number: \<open>rnd\<close> is that rounding, also applied
  to a decimal literal that is not a binary64 number (\<^verbatim>\<open>32.45\<close>). The other literals
  of the source (2.0, 0.5, 10, 20, 1000, 3, 30, 55, 15, -110) are binary64 numbers. \<open>np_log10\<close> is
  \<^verbatim>\<open>np.log10\<close> as the C library computes it. For an argument \<open>\<le> 0\<close> numpy returns
  \<^verbatim>\<open>-inf\<close> or \<^verbatim>\<open>nan\<close>, which \<^typ>\<open>real\<close> does not have: every statement below that
  depends on the value assumes a positive range.
\<close>

record float_arith =
  rnd :: "real \<Rightarrow> real"
  np_log10 :: "real \<Rightarrow> real"

text \<open>The arithmetic without rounding error, used to evaluate concrete inputs.\<close>

definition exact_arith :: float_arith where
  "exact_arith = \<lparr>rnd = (\<lambda>x. x), np_log10 = log 10\<rparr>"

text \<open>
  \<^verbatim>\<open>round(x, ndigits)\<close>, as Python rounds a float: the multiple of \<open>10\<^sup>-\<^sup>n\<close> nearest to
  \<open>x\<close>, a tie going to the even multiple. The result stands for the binary64 number
  nearest to that decimal. (numpy rounds a \<^verbatim>\<open>np.float64\<close> by scaling with \<open>10\<^sup>n\<close>,
  rounding to an integer and dividing, all in binary64; for an argument next to a tie
  its result can be the neighbouring decimal.)
\<close>

definition round_half_even :: "real \<Rightarrow> int" where
  "round_half_even y =
     (let f = \<lfloor>y\<rfloor>; d = y - of_int f
      in if d < 1 / 2 then f
         else if 1 / 2 < d then f + 1
         else if even f then f else f + 1)"

definition py_round :: "real \<Rightarrow> nat \<Rightarrow> real" where
  "py_round x ndigits = of_int (round_half_even (x * 10 ^ ndigits)) / 10 ^ ndigits"

subsection \<open>Link budget (\<^verbatim>\<open>calculate_signal_strength\<close>)\<close>

text \<open>
  The values of the key \<^verbatim>\<open>"link_quality"\<close>: the strings \<^verbatim>\<open>"Excellent"\<close>, \<^verbatim>\<open>"Good"\<close>,
  \<^verbatim>\<open>"Fair"\<close>, \<^verbatim>\<open>"Poor"\<close>, \<^verbatim>\<open>"Very Poor"\<close> and \<^verbatim>\<open>"No Signal"\<close>.
\<close>

datatype link_quality = Excellent | Good | Fair | Poor | VeryPoor | NoSignal

record metrics =
  received_power_dbm :: "real option"
  snr_db :: "real option"
  link_quality :: link_quality
  path_loss_db :: "real option"
  atmospheric_loss_db :: "real option"

text \<open>
  The local variables of the function body, in the order the source computes them, each
  floating-point operation rounded. \<^verbatim>\<open>satellite_eirp_dbw + 30\<close> adds two Python integers.
\<close>

definition fspl_db :: "float_arith \<Rightarrow> real \<Rightarrow> real" where
  "fspl_db fa range_km =
     (let frequency_mhz = rnd fa (frequency_ghz SIGNAL_PARAMS * 1000)
      in rnd fa
           (rnd fa (rnd fa (20 * np_log10 fa range_km)
                    + rnd fa (20 * np_log10 fa frequency_mhz))
            + rnd fa 32.45))"

definition atm_loss_db :: "float_arith \<Rightarrow> real \<Rightarrow> real" where
  "atm_loss_db fa elevation_deg =
     (if elevation_deg < 10 then rnd fa (2.0 + rnd fa (rnd fa (10 - elevation_deg) * 0.5))
      else 2.0)"

definition total_path_loss_db :: "float_arith \<Rightarrow> real \<Rightarrow> real \<Rightarrow> real" where
  "total_path_loss_db fa elevation_deg range_km =
     rnd fa (rnd fa (fspl_db fa range_km + atm_loss_db fa elevation_deg)
             + system_losses_db SIGNAL_PARAMS)"

definition received_power_dbm_unrounded :: "float_arith \<Rightarrow> real \<Rightarrow> real \<Rightarrow> real" where
  "received_power_dbm_unrounded fa elevation_deg range_km =
     (let satellite_eirp_dbm = satellite_eirp_dbw SIGNAL_PARAMS + 30
      in rnd fa (rnd fa (satellite_eirp_dbm - total_path_loss_db fa elevation_deg range_km)
                 + receiver_gain_dbi SIGNAL_PARAMS))"

definition snr_db_unrounded :: "float_arith \<Rightarrow> real \<Rightarrow> real \<Rightarrow> real" where
  "snr_db_unrounded fa elevation_deg range_km =
     rnd fa (received_power_dbm_unrounded fa elevation_deg range_km
             - noise_floor_dbm SIGNAL_PARAMS)"

text \<open>The \<^verbatim>\<open>if ... elif ... else\<close> chain on the thresholds.\<close>

definition assess_link_quality :: "link_quality_thresholds \<Rightarrow> real \<Rightarrow> link_quality" where
  "assess_link_quality thresholds snr =
     (if excellent thresholds \<le> snr then Excellent
      else if good thresholds \<le> snr then Good
      else if fair thresholds \<le> snr then Fair
      else if poor thresholds \<le> snr then Poor
      else VeryPoor)"

definition calculate_signal_strength ::
  "float_arith \<Rightarrow> real \<Rightarrow> real \<Rightarrow> real \<Rightarrow> metrics"
where
  "calculate_signal_strength fa elevation_deg range_km azimuth_deg =
     (if elevation_deg < 0 then
        \<lparr>received_power_dbm = None,
         snr_db = None,
         link_quality = NoSignal,
         path_loss_db = None,
         atmospheric_loss_db = None\<rparr>
      else
        \<lparr>received_power_dbm =
           Some (py_round (received_power_dbm_unrounded fa elevation_deg range_km) 2),
         snr_db = Some (py_round (snr_db_unrounded fa elevation_deg range_km) 2),
         link_quality =
           assess_link_quality LINK_QUALITY_THRESHOLDS
             (snr_db_unrounded fa elevation_deg range_km),
         path_loss_db = Some (py_round (total_path_loss_db fa elevation_deg range_km) 2),
         atmospheric_loss_db = Some (py_round (atm_loss_db fa elevation_deg) 2)\<rparr>)"

subsection \<open>Trajectory sampler (\<^verbatim>\<open>generate_satellite_passes\<close>)\<close>

text \<open>
  One entry of the returned list: the keys of \<^verbatim>\<open>position_data\<close>, followed by the keys
  merged in from \<^verbatim>\<open>**signal_metrics\<close> (the record extends \<^typ>\<open>metrics\<close>). The keys
  \<^verbatim>\<open>"timestamp"\<close> (\<^verbatim>\<open>isoformat()\<close>) and \<^verbatim>\<open>"unix_timestamp"\<close> (\<^verbatim>\<open>timestamp()\<close>) are two
  renderings of \<^verbatim>\<open>current_time\<close>; both fields hold the instant.
\<close>

record sample = metrics +
  timestamp :: int
  unix_timestamp :: int
  elevation_deg :: real
  azimuth_deg :: real
  range_km :: real
  satellite_lat :: real
  satellite_lon :: real
  satellite_alt_km :: real
  visible :: bool

text \<open>The Python exceptions the modelled code can raise.\<close>

datatype py_error = IndexError | TypeError | OverflowError

text \<open>
  \<^verbatim>\<open>datetime.max\<close>, 9999-12-31 23:59:59.999999, in microseconds since \<^verbatim>\<open>datetime.min\<close>
  (3652059 days). \<^verbatim>\<open>timedelta(seconds=n)\<close> in microseconds: it raises unless the number
  of whole days is at most 999999999 in magnitude. \<^verbatim>\<open>datetime + timedelta\<close> raises when
  the sum is not a \<^verbatim>\<open>datetime\<close>.
\<close>

definition datetime_max :: int where
  "datetime_max = 3652059 * 86400 * 1000000 - 1"

definition timedelta_seconds :: "int \<Rightarrow> py_error + int" where
  "timedelta_seconds n =
     (if - 999999999 \<le> n div 86400 \<and> n div 86400 \<le> 999999999 then Inr (n * 1000000)
      else Inl OverflowError)"

definition datetime_add :: "int \<Rightarrow> int \<Rightarrow> py_error + int" where
  "datetime_add t delta =
     (if 0 \<le> t + delta \<and> t + delta \<le> datetime_max then Inr (t + delta)
      else Inl OverflowError)"

text \<open>
  The instant \<^verbatim>\<open>ts.utc(year, ..., second)\<close> handed to Skyfield, which drops the
  microseconds: the whole second of \<^verbatim>\<open>current_time\<close>.
\<close>

definition ts_utc :: "int \<Rightarrow> int" where
  "ts_utc current_time = current_time div 1000000"

text \<open>
  The propagator, as two parameters: \<open>altaz t\<close> stands for
  \<^verbatim>\<open>(satellite - observer).at(t).altaz()\<close> as (\<^verbatim>\<open>alt.degrees\<close>, \<^verbatim>\<open>az.degrees\<close>,
  \<^verbatim>\<open>distance.km\<close>), and \<open>subpoint t\<close> for \<^verbatim>\<open>wgs84.latlon_of\<close> and \<^verbatim>\<open>wgs84.height_of\<close>
  of \<^verbatim>\<open>satellite.at(t)\<close> as (\<^verbatim>\<open>lat.degrees\<close>, \<^verbatim>\<open>lon.degrees\<close>, \<^verbatim>\<open>height.km\<close>). Both are
  assumed to return.
\<close>

type_synonym propagator = "int \<Rightarrow> real \<times> real \<times> real"

text \<open>The body of the \<^verbatim>\<open>while\<close> loop up to \<^verbatim>\<open>positions.append\<close>.\<close>

definition position_data ::
  "float_arith \<Rightarrow> propagator \<Rightarrow> propagator \<Rightarrow> int \<Rightarrow> sample"
where
  "position_data fa altaz subpoint current_time =
     (let t = ts_utc current_time;
          (alt, az, distance) = altaz t;
          (lat, lon, height) = subpoint t;
          signal_metrics = calculate_signal_strength fa alt distance az
      in \<lparr>received_power_dbm = received_power_dbm signal_metrics,
          snr_db = snr_db signal_metrics,
          link_quality = link_quality signal_metrics,
          path_loss_db = path_loss_db signal_metrics,
          atmospheric_loss_db = atmospheric_loss_db signal_metrics,
          timestamp = current_time,
          unix_timestamp = current_time,
          elevation_deg = py_round alt 2,
          azimuth_deg = py_round az 2,
          range_km = py_round distance 2,
          satellite_lat = py_round lat 4,
          satellite_lon = py_round lon 4,
          satellite_alt_km = py_round height 2,
          visible = (0 < alt)\<rparr>)"

text \<open>
  The \<^verbatim>\<open>while current_time <= end_time\<close> loop: the sample is appended, then
  \<^verbatim>\<open>current_time += timedelta(seconds=interval_seconds)\<close> builds the \<^verbatim>\<open>timedelta\<close> and
  adds it, after the last sample too. The loop need not terminate (a zero interval never
  moves \<^verbatim>\<open>current_time\<close>), so the result is an option: \<open>None\<close> is "does not return",
  \<open>Some (Inl err)\<close> is "raises \<open>err\<close>", \<open>Some (Inr positions)\<close> is "returns".
\<close>

partial_function (option) sampling_loop ::
  "float_arith \<Rightarrow> propagator \<Rightarrow> propagator \<Rightarrow> int \<Rightarrow> int \<Rightarrow> int \<Rightarrow> sample list
     \<Rightarrow> (py_error + sample list) option"
where
  "sampling_loop fa altaz subpoint end_time interval_seconds current_time positions =
     (if current_time \<le> end_time then
        (case timedelta_seconds interval_seconds of
           Inl err \<Rightarrow> Some (Inl err)
         | Inr delta \<Rightarrow>
             (case datetime_add current_time delta of
                Inl err \<Rightarrow> Some (Inl err)
              | Inr next_time \<Rightarrow>
                  sampling_loop fa altaz subpoint end_time interval_seconds next_time
                    (positions @ [position_data fa altaz subpoint current_time])))
      else Some (Inr positions))"

definition generate_satellite_passes ::
  "float_arith \<Rightarrow> propagator \<Rightarrow> propagator \<Rightarrow> int \<Rightarrow> int \<Rightarrow> int
     \<Rightarrow> (py_error + sample list) option"
where
  "generate_satellite_passes fa altaz subpoint start_time end_time interval_seconds =
     sampling_loop fa altaz subpoint end_time interval_seconds start_time []"

subsection \<open>Pass segmenter (\<^verbatim>\<open>identify_passes\<close>)\<close>

text \<open>
  The \<^verbatim>\<open>for pos in positions\<close> loop over the state
  (\<^verbatim>\<open>passes\<close>, \<^verbatim>\<open>in_pass\<close>, \<^verbatim>\<open>current_pass\<close>), then the check after the loop.
\<close>

fun identify_passes_loop ::
  "sample list \<Rightarrow> sample list list \<times> bool \<times> sample list
     \<Rightarrow> sample list list \<times> bool \<times> sample list"
where
  "identify_passes_loop [] st = st"
| "identify_passes_loop (pos # rest) (passes, in_pass, current_pass) =
     identify_passes_loop rest
       (if visible pos \<and> \<not> in_pass then (passes, True, [pos])
        else if visible pos \<and> in_pass then (passes, in_pass, current_pass @ [pos])
        else if \<not> visible pos \<and> in_pass then
          (if length current_pass > 0 then passes @ [current_pass] else passes, False, [])
        else (passes, in_pass, current_pass))"

definition identify_passes :: "sample list \<Rightarrow> sample list list" where
  "identify_passes positions =
     (let (passes, in_pass, current_pass) = identify_passes_loop positions ([], False, [])
      in if in_pass \<and> length current_pass > 0 then passes @ [current_pass] else passes)"

text \<open>
  The specification's words, for comparison with the code: the maximal contiguous runs
  of visible samples, in input order. A run starts at a visible sample, takes every
  visible sample that follows without interruption, and the search resumes after it.
\<close>

function maximal_visible_runs :: "sample list \<Rightarrow> sample list list" where
  "maximal_visible_runs [] = []"
| "maximal_visible_runs (x # xs) =
     (if visible x then
        (x # takeWhile visible xs) # maximal_visible_runs (dropWhile visible xs)
      else maximal_visible_runs xs)"
  by pat_completeness auto
termination
  by (relation "measure length") (auto simp: length_dropWhile_le le_imp_less_Suc)

subsection \<open>Per-pass statistics (\<^verbatim>\<open>_generate_detailed_pass_section\<close>)\<close>




subsection \<open>Propagators used as concrete inputs\<close>

text \<open>
  A satellite held at 45 degrees elevation and 600 km, one held exactly on the horizon,
  and one held a thousandth of a degree above it; a fixed sub-point.
\<close>

definition overhead_altaz :: propagator where
  "overhead_altaz t = (45, 180, 600)"

definition horizon_altaz :: propagator where
  "horizon_altaz t = (0, 90, 2500)"


definition fixed_subpoint :: propagator where
  "fixed_subpoint t = (30, - 100, 500)"

text \<open>
  The order of the qualities named by the specification,
  Excellent > Good > Fair > Poor > VeryPoor, as a rank (NoSignal below all).
\<close>

fun quality_rank :: "link_quality \<Rightarrow> nat" where
  "quality_rank Excellent = 5"
| "quality_rank Good = 4"
| "quality_rank Fair = 3"
| "quality_rank Poor = 2"
| "quality_rank VeryPoor = 1"
| "quality_rank NoSignal = 0"

section \<open>Properties\<close>

subsection \<open>Helper lemmas on the link budget\<close>

lemma assess_link_quality_not_NoSignal: "assess_link_quality th snr \<noteq> NoSignal"
  by (simp add: assess_link_quality_def)





lemma py_round_162_45: "py_round t 2 = 162.45" if "162.445 < t" "t < 162.455"
proof -
  have "\<lfloor>t * 100\<rfloor> = 16244 \<or> \<lfloor>t * 100\<rfloor> = 16245"
    using that by (simp add: floor_eq_iff) linarith
  then show ?thesis
  proof
    assume f: "\<lfloor>t * 100\<rfloor> = 16244"
    then have "t * 100 < 16245" by linarith
    with f that show ?thesis by (simp add: py_round_def round_half_even_def Let_def)
  next
    assume f: "\<lfloor>t * 100\<rfloor> = 16245"
    then have "16245 \<le> t * 100" by linarith
    with f that show ?thesis by (simp add: py_round_def round_half_even_def Let_def)
  qed
qed

text \<open>
  Whatever the rounding of the arithmetic: when the computed sum lies within 0.005 dB of
  162.45 dB without being 162.45 dB, the reported path loss is 162.45 dB and differs
  from it.
\<close>

lemma path_loss_differs_from_sum:
  assumes "0 \<le> el" and "162.445 < total_path_loss_db fa el rng"
    and "total_path_loss_db fa el rng < 162.455"
    and "total_path_loss_db fa el rng \<noteq> 162.45"
  shows "path_loss_db (calculate_signal_strength fa el rng az) = Some 162.45 \<and>
     path_loss_db (calculate_signal_strength fa el rng az)
       \<noteq> Some (total_path_loss_db fa el rng)"
  using assms py_round_162_45 [of "total_path_loss_db fa el rng"]
  by (simp add: calculate_signal_strength_def)

lemma populated_from_horizon:
  "0 \<le> el \<Longrightarrow>
   received_power_dbm (calculate_signal_strength fa el rng az) \<noteq> None \<and>
   snr_db (calculate_signal_strength fa el rng az) \<noteq> None \<and>
   path_loss_db (calculate_signal_strength fa el rng az) \<noteq> None \<and>
   atmospheric_loss_db (calculate_signal_strength fa el rng az) \<noteq> None \<and>
   link_quality (calculate_signal_strength fa el rng az) \<noteq> NoSignal"
  by (simp add: calculate_signal_strength_def assess_link_quality_not_NoSignal)

text \<open>
  C9. The result of the link-budget function does not depend on its azimuth argument:
  two calls that differ only in \<open>azimuth_deg\<close> return equal metrics.
\<close>

theorem calculate_signal_strength_azimuth_independent:
  "calculate_signal_strength fa el rng az = calculate_signal_strength fa el rng az'"
  by (simp add: calculate_signal_strength_def)

text \<open>
  C1. Below the horizon (\<open>elevation_deg < 0\<close>) the link budget returns the metrics with
  received power, SNR, path loss and atmospheric loss all absent and the quality
  NoSignal; from the horizon up (\<open>elevation_deg \<ge> 0\<close>, positive range) all four are
  present and the quality is not NoSignal. Hence every result is either entirely absent
  or entirely populated.
\<close>

theorem metrics_absent_or_populated_together:
  "(el < 0 \<longrightarrow>
      calculate_signal_strength fa el rng az =
        \<lparr>received_power_dbm = None, snr_db = None, link_quality = NoSignal,
         path_loss_db = None, atmospheric_loss_db = None\<rparr>) \<and>
   (0 \<le> el \<and> 0 < rng \<longrightarrow>
      received_power_dbm (calculate_signal_strength fa el rng az) \<noteq> None \<and>
      snr_db (calculate_signal_strength fa el rng az) \<noteq> None \<and>
      path_loss_db (calculate_signal_strength fa el rng az) \<noteq> None \<and>
      atmospheric_loss_db (calculate_signal_strength fa el rng az) \<noteq> None \<and>
      link_quality (calculate_signal_strength fa el rng az) \<noteq> NoSignal)"
  using populated_from_horizon [of el fa rng az]
  by (simp add: calculate_signal_strength_def)

theorem metrics_absent_or_populated_together_witness:
  "calculate_signal_strength exact_arith (- 5) 600 180 =
     \<lparr>received_power_dbm = None, snr_db = None, link_quality = NoSignal,
      path_loss_db = None, atmospheric_loss_db = None\<rparr> \<and>
   received_power_dbm (calculate_signal_strength exact_arith 45 600 180) \<noteq> None \<and>
   snr_db (calculate_signal_strength exact_arith 45 600 180) \<noteq> None \<and>
   path_loss_db (calculate_signal_strength exact_arith 45 600 180) \<noteq> None \<and>
   atmospheric_loss_db (calculate_signal_strength exact_arith 45 600 180) \<noteq> None \<and>
   link_quality (calculate_signal_strength exact_arith 45 600 180) \<noteq> NoSignal"
  using metrics_absent_or_populated_together [of "- 5" exact_arith 600 180]
    metrics_absent_or_populated_together [of 45 exact_arith 600 180]
  by simp

text \<open>
  C6. Link quality is a monotone step function of the SNR under the order
  Excellent > Good > Fair > Poor > VeryPoor: a lower SNR never gives a better quality.
  The thresholds are tried from high to low and the first match wins (at least 20
  Excellent, at least 15 Good, at least 10 Fair, at least 5 Poor, otherwise VeryPoor); the
  SNR values 25, 20, 17, 12, 7, 2 give Excellent, Excellent, Good, Fair, Poor, VeryPoor.
  From the horizon up, the quality the link budget returns is this function of the
  (unrounded) SNR, whatever the rounding of the arithmetic.
\<close>

theorem link_quality_monotone_step:
  "(snr1 \<le> snr2 \<longrightarrow>
      quality_rank (assess_link_quality LINK_QUALITY_THRESHOLDS snr1)
        \<le> quality_rank (assess_link_quality LINK_QUALITY_THRESHOLDS snr2)) \<and>
   assess_link_quality LINK_QUALITY_THRESHOLDS snr =
     (if 20 \<le> snr then Excellent
      else if 15 \<le> snr then Good
      else if 10 \<le> snr then Fair
      else if 5 \<le> snr then Poor
      else VeryPoor) \<and>
   map (assess_link_quality LINK_QUALITY_THRESHOLDS) [25, 20, 17, 12, 7, 2] =
     [Excellent, Excellent, Good, Fair, Poor, VeryPoor] \<and>
   (0 \<le> el \<longrightarrow>
      link_quality (calculate_signal_strength fa el rng az) =
        assess_link_quality LINK_QUALITY_THRESHOLDS (snr_db_unrounded fa el rng))"
  by (simp add: assess_link_quality_def LINK_QUALITY_THRESHOLDS_def
      calculate_signal_strength_def)

theorem link_quality_monotone_step_witness:
  "(7::real) \<le> 17 \<and>
   quality_rank (assess_link_quality LINK_QUALITY_THRESHOLDS 7)
     \<le> quality_rank (assess_link_quality LINK_QUALITY_THRESHOLDS 17) \<and>
   link_quality (calculate_signal_strength exact_arith 45 600 180) =
     assess_link_quality LINK_QUALITY_THRESHOLDS (snr_db_unrounded exact_arith 45 600)"
  using link_quality_monotone_step [where ?snr1.0 = 7 and ?snr2.0 = 17 and snr = 0 and el = 45 and fa = exact_arith and rng = 600 and az = 180]
  by simp




subsection \<open>Helper lemmas on the sampler\<close>

lemma position_data_fields:
  assumes "altaz (ts_utc t) = (el, a, r)"
  shows "visible (position_data fa altaz sub t) = (0 < el)"
    and "elevation_deg (position_data fa altaz sub t) = py_round el 2"
    and "received_power_dbm (position_data fa altaz sub t) =
           received_power_dbm (calculate_signal_strength fa el r a)"
    and "snr_db (position_data fa altaz sub t) = snr_db (calculate_signal_strength fa el r a)"
    and "link_quality (position_data fa altaz sub t) =
           link_quality (calculate_signal_strength fa el r a)"
    and "path_loss_db (position_data fa altaz sub t) =
           path_loss_db (calculate_signal_strength fa el r a)"
    and "atmospheric_loss_db (position_data fa altaz sub t) =
           atmospheric_loss_db (calculate_signal_strength fa el r a)"
  using assms by (simp_all add: position_data_def Let_def split: prod.splits)

lemma timestamp_position_data: "timestamp (position_data fa altaz sub t) = t"
  by (simp add: position_data_def Let_def split: prod.splits)

lemma NoSignal_iff_below_horizon:
  "link_quality (calculate_signal_strength fa el r a) = NoSignal \<longleftrightarrow> el < 0"
  by (simp add: calculate_signal_strength_def assess_link_quality_not_NoSignal)















lemma sampling_loop_position_data:
  assumes ret: "sampling_loop fa altaz sub e i c acc = Some (Inr ps)"
    and acc: "\<forall>s \<in> set acc. s = position_data fa altaz sub (timestamp s)"
  shows "\<forall>s \<in> set ps. s = position_data fa altaz sub (timestamp s)"
proof -
  have "(\<forall>s \<in> set acc. s = position_data fa altaz sub (timestamp s)) \<longrightarrow>
        (\<forall>ps'. (Inr ps :: py_error + sample list) = Inr ps' \<longrightarrow>
           (\<forall>s \<in> set ps'. s = position_data fa altaz sub (timestamp s)))"
  proof (rule sampling_loop.raw_induct
      [where P = "\<lambda>fa altaz sub e i c acc y.
          (\<forall>s \<in> set acc. s = position_data fa altaz sub (timestamp s)) \<longrightarrow>
          (\<forall>ps'. y = Inr ps' \<longrightarrow>
             (\<forall>s \<in> set ps'. s = position_data fa altaz sub (timestamp s)))", OF _ ret])
    fix loop :: "float_arith \<Rightarrow> propagator \<Rightarrow> propagator \<Rightarrow> int \<Rightarrow> int \<Rightarrow> int \<Rightarrow> sample list
        \<Rightarrow> (py_error + sample list) option"
    fix fa :: float_arith and altaz sub :: propagator and e i c :: int
      and acc :: "sample list" and y :: "py_error + sample list"
    assume IH: "\<And>fa altaz sub e i c acc y. loop fa altaz sub e i c acc = Some y \<Longrightarrow>
          (\<forall>s \<in> set acc. s = position_data fa altaz sub (timestamp s)) \<longrightarrow>
          (\<forall>ps'. y = Inr ps' \<longrightarrow>
             (\<forall>s \<in> set ps'. s = position_data fa altaz sub (timestamp s)))"
      and body: "(if c \<le> e
          then case timedelta_seconds i of
                 Inl err \<Rightarrow> Some (Inl err)
               | Inr delta \<Rightarrow>
                   (case datetime_add c delta of
                      Inl err \<Rightarrow> Some (Inl err)
                    | Inr next_time \<Rightarrow>
                        loop fa altaz sub e i next_time (acc @ [position_data fa altaz sub c]))
          else Some (Inr acc)) = Some y"
    show "(\<forall>s \<in> set acc. s = position_data fa altaz sub (timestamp s)) \<longrightarrow>
          (\<forall>ps'. y = Inr ps' \<longrightarrow>
             (\<forall>s \<in> set ps'. s = position_data fa altaz sub (timestamp s)))"
    proof (intro impI allI)
      fix ps'
      assume a: "\<forall>s \<in> set acc. s = position_data fa altaz sub (timestamp s)"
        and y: "y = Inr ps'"
      have a': "\<forall>s \<in> set (acc @ [position_data fa altaz sub c]).
          s = position_data fa altaz sub (timestamp s)"
        using a by (simp add: timestamp_position_data)
      show "\<forall>s \<in> set ps'. s = position_data fa altaz sub (timestamp s)"
      proof (cases "c \<le> e")
        case False
        with body a y show ?thesis by auto
      next
        case True
        with body y obtain nxt where
          rec: "loop fa altaz sub e i nxt (acc @ [position_data fa altaz sub c]) = Some y"
          by (auto split: sum.splits)
        from IH [OF rec] a' y show ?thesis by simp
      qed
    qed
  qed
  with acc show ?thesis by simp
qed

lemma generate_samples_are_position_data:
  assumes "generate_satellite_passes fa altaz sub s e i = Some (Inr ps)" and "smp \<in> set ps"
  shows "smp = position_data fa altaz sub (timestamp smp)"
  using sampling_loop_position_data [of fa altaz sub e i s "[]" ps] assms
  by (simp add: generate_satellite_passes_def)

lemma generate_single_tick:
  "generate_satellite_passes fa altaz sub 0 0 5 = Some (Inr [position_data fa altaz sub 0])"
  by (simp add: generate_satellite_passes_def sampling_loop.simps timedelta_seconds_def
      datetime_add_def datetime_max_def)







text \<open>
  C4. The two cutoffs at the horizon differ: every sample the sampler emits has
  \<open>visible = (elevation > 0)\<close>, strictly, while its link quality is NoSignal exactly when
  the elevation is \<open>< 0\<close>. A sample computed at exactly 0 degrees is therefore not
  visible and yet carries fully populated link metrics.
\<close>

theorem horizon_cutoffs_asymmetric:
  assumes "generate_satellite_passes fa altaz sub s e i = Some (Inr ps)"
    and "smp \<in> set ps"
    and "altaz (ts_utc (timestamp smp)) = (el, a, r)"
  shows "visible smp = (0 < el) \<and>
     (link_quality smp = NoSignal \<longleftrightarrow> el < 0) \<and>
     (el = 0 \<longrightarrow>
        \<not> visible smp \<and> received_power_dbm smp \<noteq> None \<and> snr_db smp \<noteq> None \<and>
        path_loss_db smp \<noteq> None \<and> atmospheric_loss_db smp \<noteq> None \<and>
        link_quality smp \<noteq> NoSignal)"
proof -
  have smp: "smp = position_data fa altaz sub (timestamp smp)"
    using assms(1,2) by (rule generate_samples_are_position_data)
  note f = position_data_fields
    [where altaz = altaz and t = "timestamp smp" and sub = sub and fa = fa,
      OF assms(3), folded smp]
  show ?thesis
    using populated_from_horizon [of 0 fa r a]
    by (auto simp: f NoSignal_iff_below_horizon)
qed

theorem horizon_cutoffs_asymmetric_witness:
  "generate_satellite_passes exact_arith horizon_altaz fixed_subpoint 0 0 5 =
     Some (Inr [position_data exact_arith horizon_altaz fixed_subpoint 0]) \<and>
   horizon_altaz
     (ts_utc (timestamp (position_data exact_arith horizon_altaz fixed_subpoint 0)))
     = (0, 90, 2500) \<and>
   \<not> visible (position_data exact_arith horizon_altaz fixed_subpoint 0) \<and>
   received_power_dbm (position_data exact_arith horizon_altaz fixed_subpoint 0) \<noteq> None \<and>
   snr_db (position_data exact_arith horizon_altaz fixed_subpoint 0) \<noteq> None \<and>
   path_loss_db (position_data exact_arith horizon_altaz fixed_subpoint 0) \<noteq> None \<and>
   atmospheric_loss_db (position_data exact_arith horizon_altaz fixed_subpoint 0) \<noteq> None \<and>
   link_quality (position_data exact_arith horizon_altaz fixed_subpoint 0) \<noteq> NoSignal"
proof -
  let ?smp = "position_data exact_arith horizon_altaz fixed_subpoint 0"
  have g: "generate_satellite_passes exact_arith horizon_altaz fixed_subpoint 0 0 5 =
     Some (Inr [?smp])"
    by (rule generate_single_tick)
  have m: "?smp \<in> set [?smp]" by simp
  have h: "horizon_altaz (ts_utc (timestamp ?smp)) = (0, 90, 2500)"
    by (simp add: horizon_altaz_def)
  from horizon_cutoffs_asymmetric [OF g m h] g h show ?thesis by simp
qed



subsection \<open>Helper lemmas on the segmenter\<close>

lemma identify_passes_loop_runs:
  "(in_pass \<longrightarrow> cur \<noteq> []) \<Longrightarrow>
   identify_passes_loop xs (passes, in_pass, cur) = (ps, ip, cp) \<Longrightarrow>
   (if ip \<and> length cp > 0 then ps @ [cp] else ps) =
     passes @
       (if in_pass then
          (cur @ takeWhile visible xs) # maximal_visible_runs (dropWhile visible xs)
        else maximal_visible_runs xs)"
proof (induction xs arbitrary: passes in_pass cur)
  case Nil
  then show ?case by auto
next
  case (Cons x xs)
  show ?case
  proof (cases "visible x")
    case True
    show ?thesis
    proof (cases in_pass)
      case True
      with \<open>visible x\<close> Cons.prems(2)
      have "identify_passes_loop xs (passes, True, cur @ [x]) = (ps, ip, cp)" by simp
      from Cons.IH [OF _ this] \<open>visible x\<close> True show ?thesis by simp
    next
      case False
      with \<open>visible x\<close> Cons.prems(2)
      have "identify_passes_loop xs (passes, True, [x]) = (ps, ip, cp)" by simp
      from Cons.IH [OF _ this] \<open>visible x\<close> False show ?thesis by simp
    qed
  next
    case False
    show ?thesis
    proof (cases in_pass)
      case True
      with Cons.prems(1) have "cur \<noteq> []" by simp
      with True \<open>\<not> visible x\<close> Cons.prems(2)
      have "identify_passes_loop xs (passes @ [cur], False, []) = (ps, ip, cp)" by simp
      from Cons.IH [OF _ this] \<open>\<not> visible x\<close> True show ?thesis by simp
    next
      case False
      with \<open>\<not> visible x\<close> Cons.prems(2)
      have "identify_passes_loop xs (passes, False, cur) = (ps, ip, cp)" by simp
      from Cons.IH [OF _ this] \<open>\<not> visible x\<close> False show ?thesis by simp
    qed
  qed
qed

lemma identify_passes_runs: "identify_passes xs = maximal_visible_runs xs"
proof -
  obtain ps ip cp where l: "identify_passes_loop xs ([], False, []) = (ps, ip, cp)"
    by (cases "identify_passes_loop xs ([], False, [])") auto
  from identify_passes_loop_runs [OF _ l] l show ?thesis
    by (simp add: identify_passes_def)
qed

lemma runs_all_visible:
  assumes "\<forall>x\<in>set xs. visible x" and "xs \<noteq> []"
  shows "maximal_visible_runs xs = [xs]"
proof -
  from assms(2) obtain y ys where xs: "xs = y # ys" by (cases xs) auto
  with assms(1) have t: "takeWhile visible ys = ys" and d: "dropWhile visible ys = []"
    by simp_all
  from xs assms(1) show ?thesis by (simp add: t d)
qed

lemma runs_none_visible:
  "\<forall>x\<in>set xs. \<not> visible x \<Longrightarrow> maximal_visible_runs xs = []"
  by (induction xs) simp_all

lemma runs_nonempty_visible:
  "p \<in> set (maximal_visible_runs xs) \<Longrightarrow> p \<noteq> [] \<and> (\<forall>x\<in>set p. visible x)"
proof (induction xs rule: maximal_visible_runs.induct)
  case 1
  then show ?case by simp
next
  case (2 x xs)
  show ?case
  proof (cases "visible x")
    case True
    with "2.prems" have "p = x # takeWhile visible xs \<or> p \<in> set (maximal_visible_runs (dropWhile visible xs))"
      by simp
    then show ?thesis
    proof
      assume "p = x # takeWhile visible xs"
      with True show ?thesis by (auto dest: set_takeWhileD)
    next
      assume "p \<in> set (maximal_visible_runs (dropWhile visible xs))"
      with "2.IH"(1) True show ?thesis by blast
    qed
  next
    case False
    with "2.prems" have "p \<in> set (maximal_visible_runs xs)" by simp
    with "2.IH"(2) False show ?thesis by blast
  qed
qed

lemma runs_open_at_end:
  "run \<noteq> [] \<Longrightarrow> \<forall>x\<in>set run. visible x \<Longrightarrow> xs = [] \<or> \<not> visible (last xs) \<Longrightarrow>
   maximal_visible_runs (xs @ run) = maximal_visible_runs xs @ [run]"
proof (induction xs rule: maximal_visible_runs.induct)
  case 1
  then show ?case by (simp add: runs_all_visible)
next
  case (2 x xs)
  from "2.prems"(3) have nl: "\<not> visible (last (x # xs))" by simp
  show ?case
  proof (cases "visible x")
    case False
    from nl have "xs = [] \<or> \<not> visible (last xs)" by (cases "xs = []") simp_all
    from "2.IH"(2) [OF False "2.prems"(1,2) this] False show ?thesis by simp
  next
    case True
    with nl have ne: "xs \<noteq> []" by auto
    with nl have nlx: "\<not> visible (last xs)" by simp
    with ne have ex: "\<exists>y\<in>set xs. \<not> visible y" using last_in_set by blast
    then have tw: "takeWhile visible (xs @ run) = takeWhile visible xs"
      and dw: "dropWhile visible (xs @ run) = dropWhile visible xs @ run"
      by (auto simp: takeWhile_append1 dropWhile_append1)
    have dne: "dropWhile visible xs \<noteq> []" using ex by simp
    have "takeWhile visible xs @ dropWhile visible xs = xs" by simp
    then have "last xs = last (dropWhile visible xs)"
      using dne by (metis last_appendR)
    with nlx have "\<not> visible (last (dropWhile visible xs))" by simp
    then have "maximal_visible_runs (dropWhile visible xs @ run) =
      maximal_visible_runs (dropWhile visible xs) @ [run]"
      using "2.IH"(1) [OF True "2.prems"(1,2)] by blast
    with True tw dw show ?thesis by simp
  qed
qed

lemma filter_takeWhile_same: "filter P (takeWhile P xs) = takeWhile P xs"
  by (induction xs) simp_all

lemma runs_concat: "concat (maximal_visible_runs xs) = filter visible xs"
proof (induction xs rule: maximal_visible_runs.induct)
  case 1
  then show ?case by simp
next
  case (2 x xs)
  have "filter visible (takeWhile visible xs @ dropWhile visible xs) =
        takeWhile visible xs @ filter visible (dropWhile visible xs)"
    by (simp only: filter_append filter_takeWhile_same)
  then have split: "filter visible xs = takeWhile visible xs @ filter visible (dropWhile visible xs)"
    by (simp only: takeWhile_dropWhile_id)
  show ?case
  proof (cases "visible x")
    case True
    with "2.IH"(1) split show ?thesis by simp
  next
    case False
    with "2.IH"(2) show ?thesis by simp
  qed
qed

lemma visible_sample: "visible (position_data exact_arith overhead_altaz fixed_subpoint t)"
  by (simp add: position_data_fields(1) [where altaz = overhead_altaz and el = 45 and a = 180
        and r = 600] overhead_altaz_def)

lemma invisible_sample: "\<not> visible (position_data exact_arith horizon_altaz fixed_subpoint t)"
  by (simp add: position_data_fields(1) [where altaz = horizon_altaz and el = 0 and a = 90
        and r = 2500] horizon_altaz_def)

text \<open>
  C2. For every list of samples, \<open>identify_passes\<close> returns exactly the maximal contiguous
  runs of visible samples, in input order. The empty list gives no pass; a non-empty
  all-visible list gives exactly one pass holding all its samples; an all-invisible list
  gives no pass; every pass is non-empty and holds visible samples only, and the passes
  together are the visible samples in order; a run of visible samples that reaches the
  end of the input is emitted as the last pass, with no non-visible sample after it.
\<close>

theorem identify_passes_maximal_runs:
  "identify_passes xs = maximal_visible_runs xs \<and>
   identify_passes [] = [] \<and>
   (xs \<noteq> [] \<and> (\<forall>x\<in>set xs. visible x) \<longrightarrow> identify_passes xs = [xs]) \<and>
   ((\<forall>x\<in>set xs. \<not> visible x) \<longrightarrow> identify_passes xs = []) \<and>
   (\<forall>p\<in>set (identify_passes xs). p \<noteq> [] \<and> (\<forall>x\<in>set p. visible x)) \<and>
   concat (identify_passes xs) = filter visible xs \<and>
   (run \<noteq> [] \<and> (\<forall>x\<in>set run. visible x) \<and> (xs = [] \<or> \<not> visible (last xs)) \<longrightarrow>
      identify_passes (xs @ run) = identify_passes xs @ [run])"
proof (intro conjI impI ballI)
  show "identify_passes xs = maximal_visible_runs xs"
    by (rule identify_passes_runs)
  show "identify_passes [] = []"
    by (simp add: identify_passes_def)
  show "identify_passes xs = [xs]" if "xs \<noteq> [] \<and> (\<forall>x\<in>set xs. visible x)"
    unfolding identify_passes_runs using that runs_all_visible [of xs] by blast
  show "identify_passes xs = []" if "\<forall>x\<in>set xs. \<not> visible x"
    unfolding identify_passes_runs using that by (rule runs_none_visible)
  show "p \<noteq> []" if "p \<in> set (identify_passes xs)" for p
    using that runs_nonempty_visible [of p xs] unfolding identify_passes_runs by blast
  show "visible x" if "p \<in> set (identify_passes xs)" "x \<in> set p" for p x
    using that runs_nonempty_visible [of p xs] unfolding identify_passes_runs by blast
  show "concat (identify_passes xs) = filter visible xs"
    by (simp only: identify_passes_runs runs_concat)
  show "identify_passes (xs @ run) = identify_passes xs @ [run]"
    if "run \<noteq> [] \<and> (\<forall>x\<in>set run. visible x) \<and> (xs = [] \<or> \<not> visible (last xs))"
    unfolding identify_passes_runs using that runs_open_at_end [of run xs] by blast
qed


theorem identify_passes_maximal_runs_witness:
  "identify_passes
     [position_data exact_arith overhead_altaz fixed_subpoint 0,
      position_data exact_arith overhead_altaz fixed_subpoint 5] =
     [[position_data exact_arith overhead_altaz fixed_subpoint 0,
       position_data exact_arith overhead_altaz fixed_subpoint 5]] \<and>
   identify_passes [position_data exact_arith horizon_altaz fixed_subpoint 0] = [] \<and>
   identify_passes
     ([position_data exact_arith horizon_altaz fixed_subpoint 0] @
      [position_data exact_arith overhead_altaz fixed_subpoint 5]) =
     identify_passes [position_data exact_arith horizon_altaz fixed_subpoint 0] @
     [[position_data exact_arith overhead_altaz fixed_subpoint 5]] \<and>
   visible (position_data exact_arith overhead_altaz fixed_subpoint 0) \<and>
   visible (position_data exact_arith overhead_altaz fixed_subpoint 5) \<and>
   \<not> visible (position_data exact_arith horizon_altaz fixed_subpoint 0)"
proof -
  let ?v0 = "position_data exact_arith overhead_altaz fixed_subpoint 0"
  let ?v5 = "position_data exact_arith overhead_altaz fixed_subpoint 5"
  let ?h = "position_data exact_arith horizon_altaz fixed_subpoint 0"
  have a: "[?v0, ?v5] \<noteq> [] \<and> (\<forall>x\<in>set [?v0, ?v5]. visible x)"
    by (simp add: visible_sample)
  have b: "\<forall>x\<in>set [?h]. \<not> visible x"
    by (simp add: invisible_sample)
  have c: "[?v5] \<noteq> [] \<and> (\<forall>x\<in>set [?v5]. visible x) \<and> ([?h] = [] \<or> \<not> visible (last [?h]))"
    by (simp add: visible_sample invisible_sample)
  from identify_passes_maximal_runs [of "[?v0, ?v5]" "[]"] a
  have 1: "identify_passes [?v0, ?v5] = [[?v0, ?v5]]"
    and 4: "\<forall>p\<in>set (identify_passes [?v0, ?v5]). p \<noteq> [] \<and> (\<forall>x\<in>set p. visible x)"
    by blast+
  from identify_passes_maximal_runs [of "[?h]" "[?v5]"] b c
  have 2: "identify_passes [?h] = []"
    and 3: "identify_passes ([?h] @ [?v5]) = identify_passes [?h] @ [[?v5]]"
    by blast+
  from 4 have 5: "visible ?v0 \<and> visible ?v5" unfolding 1 by simp
  from 1 2 3 5 b show ?thesis by simp
qed

subsection \<open>Helper lemmas on the per-pass statistics\<close>









end
